theory Spec2Isabelle
  imports Complex_Main "HOL-Library.AList" "HOL-Library.List_Lexorder" "HOL-Library.Char_ord"
begin

section \<open>Python values used by the sources\<close>

text \<open>
  Exceptions are values: every function of the sources that can raise returns a sum,
  \<open>Inl\<close> carrying the exception.
\<close>

datatype error =
  RuntimeError | ValueError | KeyError | IndexError | ZeroDivisionError | IOError
  | AttributeError | TypeError | SystemExit
  | UnpicklingError

text \<open>
  \<^verbatim>\<open>str.strip()\<close>: a \<open>char\<close> stands for a code point below 256; the
  whitespace code points in that range are 9..13, 28..32, 133 and 160.
\<close>

definition is_space :: "char \<Rightarrow> bool" where
  "is_space c =
     (let n = (of_char c :: nat)
      in (9 \<le> n \<and> n \<le> 13) \<or> (28 \<le> n \<and> n \<le> 32) \<or> n = 133 \<or> n = 160)"

definition strip :: "string \<Rightarrow> string" where
  "strip s = rev (dropWhile is_space (rev (dropWhile is_space s)))"

text \<open>
  \<^verbatim>\<open>str.split(sep)\<close> with a one-character separator: every occurrence splits, so
  the result has one more element than the string has separators.
\<close>

fun split_on :: "char \<Rightarrow> string \<Rightarrow> string list" where
  "split_on c [] = [[]]"
| "split_on c (x # xs) =
     (if x = c then [] # split_on c xs
      else (case split_on c xs of [] \<Rightarrow> [[x]] | w # ws \<Rightarrow> (x # w) # ws))"

text \<open>\<^verbatim>\<open>sep.join(xs)\<close>.\<close>

fun join :: "string \<Rightarrow> string list \<Rightarrow> string" where
  "join sep [] = []"
| "join sep [x] = x"
| "join sep (x # y # ys) = x @ sep @ join sep (y # ys)"

section \<open>launcher.py: configuration and role derivation\<close>

text \<open>
  The namespace returned by \<^verbatim>\<open>parser.parse_known_args()\<close>, one field per
  argument that \<^verbatim>\<open>Launcher.__init__\<close> declares.
\<close>

record args =
  master_address :: string
  listen_address :: string
  matplotlib_backend :: string
  background :: bool
  stealth :: bool
  nodes :: string
  log_file :: string

text \<open>
  The fields of a \<^verbatim>\<open>Launcher\<close> object that the modelled methods read or write.
  \<open>lock_held\<close> is the state of \<^verbatim>\<open>self._lock\<close>, a
  \<^verbatim>\<open>threading.Lock()\<close>. Of the workflow the launcher uses two attributes: its
  thread pool, an object of \<^verbatim>\<open>thread_pool.py\<close> named by its identity, and
  \<^verbatim>\<open>plotters_are_enabled\<close>.
\<close>

record workflow_obj =
  thread_pool :: nat
  plotters_are_enabled :: bool

datatype agent = Client string | Server string

record Launcher =
  largs :: args
  slaves_field :: "string list"
  lock_held :: bool
  webagg_port :: nat
  agent :: "agent option"
  workflow :: "workflow_obj option"
  initialized :: bool
  running :: bool

text \<open>
  \<^verbatim>\<open>Launcher.__init__\<close>. The parsed namespace is the input. With the background
  flag set the constructor looks for the event loop's epoll descriptor under
  \<^verbatim>\<open>/proc/self/fd\<close>; \<open>epollfd\<close> is what that search finds.
\<close>

definition Launcher_init :: "nat option \<Rightarrow> args \<Rightarrow> error + Launcher" where
  "Launcher_init epollfd a =
     (let a' = a\<lparr>master_address := strip (master_address a),
                  listen_address := strip (listen_address a),
                  matplotlib_backend := strip (matplotlib_backend a)\<rparr>;
          sl = map strip (filter (\<lambda>x. strip x \<noteq> []) (split_on CHR '','' (nodes a)))
      in if background a' \<and> epollfd = None then Inl RuntimeError
         else Inr \<lparr>largs = a', slaves_field = sl, lock_held = False, webagg_port = 0, agent = None,
        workflow = None,
                   initialized = False, running = False\<rparr>)"

definition is_master :: "Launcher \<Rightarrow> bool" where
  "is_master L = (if listen_address (largs L) \<noteq> [] then True else False)"

definition is_slave :: "Launcher \<Rightarrow> bool" where
  "is_slave L = (if master_address (largs L) \<noteq> [] then True else False)"

definition is_standalone :: "Launcher \<Rightarrow> bool" where
  "is_standalone L = (\<not> is_master L \<and> \<not> is_slave L)"

definition mode :: "Launcher \<Rightarrow> error + string" where
  "mode L =
     (if is_master L then Inr ''master''
      else if is_slave L then Inr ''slave''
      else if is_standalone L then Inr ''standalone''
      else Inl RuntimeError)"

definition reports_web_status :: "Launcher \<Rightarrow> bool" where
  "reports_web_status L = (\<not> stealth (largs L) \<and> \<not> is_slave L)"

definition slaves :: "Launcher \<Rightarrow> string list" where
  "slaves L = (if is_master L then slaves_field L else [])"

text \<open>
  \<^verbatim>\<open>int(s)\<close> on a string, base 10: surrounding whitespace is dropped, one sign is
  allowed, then decimal digits, where a single underscore may stand between two digits.
  Anything else raises \<^verbatim>\<open>ValueError\<close>.
\<close>

definition is_digit :: "char \<Rightarrow> bool" where
  "is_digit c = (let n = (of_char c :: nat) in 48 \<le> n \<and> n \<le> 57)"

definition digit_val :: "char \<Rightarrow> nat" where
  "digit_val c = of_char c - 48"

fun parse_digits :: "nat \<Rightarrow> string \<Rightarrow> nat option" where
  "parse_digits acc [] = Some acc"
| "parse_digits acc [c] = (if is_digit c then Some (10 * acc + digit_val c) else None)"
| "parse_digits acc (c # d # ds) =
     (if is_digit c then parse_digits (10 * acc + digit_val c) (d # ds)
      else if c = CHR ''_'' \<and> is_digit d then parse_digits (10 * acc + digit_val d) ds
      else None)"

definition parse_unsigned :: "string \<Rightarrow> nat option" where
  "parse_unsigned s =
     (case s of [] \<Rightarrow> None
      | c # cs \<Rightarrow> if is_digit c then parse_digits (digit_val c) cs else None)"

definition py_int :: "string \<Rightarrow> error + int" where
  "py_int s =
     (case strip s of
        [] \<Rightarrow> Inl ValueError
      | c # cs \<Rightarrow>
          if c = CHR ''-'' then
            (case parse_unsigned cs of None \<Rightarrow> Inl ValueError | Some n \<Rightarrow> Inr (- int n))
          else if c = CHR ''+'' then
            (case parse_unsigned cs of None \<Rightarrow> Inl ValueError | Some n \<Rightarrow> Inr (int n))
          else
            (case parse_unsigned (c # cs) of None \<Rightarrow> Inl ValueError
             | Some n \<Rightarrow> Inr (int n)))"

text \<open>The \<^verbatim>\<open>%d\<close> conversion of an integer.\<close>

definition digit_char :: "nat \<Rightarrow> char" where
  "digit_char n = char_of (48 + n)"

fun show_nat :: "nat \<Rightarrow> string" where
  "show_nat n = (if n < 10 then [digit_char n] else show_nat (n div 10) @ [digit_char (n mod 10)])"

declare show_nat.simps [simp del]

definition show_int :: "int \<Rightarrow> string" where
  "show_int i = (if i < 0 then CHR ''-'' # show_nat (nat (- i)) else show_nat (nat i))"

text \<open>\<^verbatim>\<open>s.index(c)\<close>: the first position of \<open>c\<close>, \<^verbatim>\<open>ValueError\<close> when absent.\<close>

fun index_of :: "char \<Rightarrow> string \<Rightarrow> nat option" where
  "index_of c [] = None"
| "index_of c (x # xs) =
     (if x = c then Some 0 else (case index_of c xs of None \<Rightarrow> None | Some i \<Rightarrow> Some (Suc i)))"

section \<open>launcher.py: launching the remote nodes\<close>

text \<open>
  What \<^verbatim>\<open>_launch_nodes\<close> reads from the process: \<open>prog_path\<close> is
  \<^verbatim>\<open>os.path.abspath(sys.argv[0])\<close>, \<open>argv_tail\<close> is \<^verbatim>\<open>sys.argv[1:]\<close> and
  \<open>hostname\<close> is \<^verbatim>\<open>socket.gethostname()\<close>.
\<close>

record environ =
  prog_path :: string
  argv_tail :: "string list"
  hostname :: string

text \<open>
  One call of \<^verbatim>\<open>_launch_remote_program(host, prog)\<close>. The method catches every
  exception of the remote shell itself, so a call is recorded as the pair it was given.
\<close>

type_synonym launch = "string \<times> string"

definition ignored_args :: "string list" where
  "ignored_args = [''-l'', ''--listen-address'', ''-n'', ''--nodes'', ''-p'',
                   ''--matplotlib-backend'', ''-b'', ''--background'',
                   ''-s'', ''--stealth'', ''-d'', ''--device'']"

text \<open>The loop over \<^verbatim>\<open>sys.argv[1:]\<close>, with its \<^verbatim>\<open>skip\<close> flag.\<close>

fun filter_argv :: "bool \<Rightarrow> string list \<Rightarrow> string list" where
  "filter_argv skip [] = []"
| "filter_argv skip (a # as) =
     (if a \<in> set ignored_args then filter_argv True as
      else if \<not> skip then a # filter_argv skip as
      else filter_argv False as)"

text \<open>
  The body of the loop \<^verbatim>\<open>for node in self.slaves\<close>. All parsing comes before the
  first launch, so one node either raises or yields its launches.
\<close>

definition launch_node :: "string \<Rightarrow> string \<Rightarrow> string \<Rightarrow> error + launch list" where
  "launch_node path slave_args node =
     (case split_on CHR ''/'' node of
        [host, devs] \<Rightarrow>
          (let marray = split_on CHR ''x'' devs in
           case (if length marray > 1 then py_int (marray ! 1) else Inr 1) of
             Inl e \<Rightarrow> Inl e
           | Inr multiplier \<Rightarrow>
              (case split_on CHR '':'' (hd marray) of
                 [oclpnums, ocldevnum] \<Rightarrow>
                   (case py_int oclpnums of
                      Inl e \<Rightarrow> Inl e
                    | Inr oclpnum \<Rightarrow>
                       (let ocldevarr = split_on CHR ''-'' ocldevnum in
                        case py_int (hd ocldevarr) of
                          Inl e \<Rightarrow> Inl e
                        | Inr ocldevmin \<Rightarrow>
                           (case (if length ocldevarr > 1 then py_int (ocldevarr ! 1)
                                  else Inr ocldevmin) of
                              Inl e \<Rightarrow> Inl e
                            | Inr ocldevmax \<Rightarrow>
                                Inr (concat (replicate (nat multiplier)
                                  (map (\<lambda>d. (host, path @ '' '' @ slave_args @ '' -d ''
                                               @ show_int oclpnum @ '':'' @ show_int d))
                                     [ocldevmin..ocldevmax]))))))
               | _ \<Rightarrow> Inl ValueError))
      | _ \<Rightarrow> Inl ValueError)"

text \<open>
  The loop itself: the launches made so far, and the exception that ended the loop, if
  one did.
\<close>

fun launch_all :: "string \<Rightarrow> string \<Rightarrow> string list \<Rightarrow> launch list \<times> error option" where
  "launch_all path slave_args [] = ([], None)"
| "launch_all path slave_args (node # rest) =
     (case launch_node path slave_args node of
        Inl e \<Rightarrow> ([], Some e)
      | Inr ls \<Rightarrow> (case launch_all path slave_args rest of (ls', r) \<Rightarrow> (ls @ ls', r)))"

definition slave_args_of :: "environ \<Rightarrow> Launcher \<Rightarrow> error + string" where
  "slave_args_of env L =
     (let filtered_argv = filter_argv False (argv_tail env) @ [''-m''];
          la = listen_address (largs L)
      in case index_of CHR '':'' la of
           None \<Rightarrow> Inl ValueError
         | Some i \<Rightarrow>
            (let host = take i la;
                 port = drop (length host + 1) la;
                 host' = (if host = [] \<or> host = ''0.0.0.0'' \<or> host = ''localhost''
                             \<or> host = ''127.0.0.1''
                          then hostname env else host)
             in Inr (join '' '' (filtered_argv @ [host' @ '':'' @ port] @ [''-b'']))))"

definition launch_nodes :: "environ \<Rightarrow> Launcher \<Rightarrow> launch list \<times> error option" where
  "launch_nodes env L =
     (if length (slaves L) = 0 then ([], None)
      else (case slave_args_of env L of
              Inl e \<Rightarrow> ([], Some e)
            | Inr slave_args \<Rightarrow> launch_all (prog_path env) slave_args (slaves L)))"







section \<open>thread_pool.py: the pool and the process-wide registry\<close>

text \<open>
  A shutdown callback is a Python callable. Two kinds are told apart: the bound method
  \<^verbatim>\<open>Launcher.stop\<close>, which \<^verbatim>\<open>Launcher.add_ref\<close> registers and whose code is
  modelled below, and any other callable, named by a number, whose code is not part of
  the sources.
\<close>

datatype callback = Launcher_stop_cb | External nat

text \<open>
  Calls that leave the sources. Whether such a call raises is not decided by the
  sources; the functions below take it from an oracle.
\<close>

datatype ext_call =
  Callback nat | Client_ctor | Server_ctor | Status_probe | Graphics_launch
  | Notify_task_stop | IOLoop_stop | Thread_join | Graphics_teardown

record ext =
  raises :: "ext_call \<Rightarrow> error option"
  status_reachable :: bool
  alive_after_join :: "nat \<Rightarrow> bool"
  can_stop_thread :: bool

text \<open>
  What \<^verbatim>\<open>sys.exit\<close> and the \<^verbatim>\<open>SIGINT\<close> handler are bound to: the behaviour that
  was there before any pool existed, or the pool class's own wrapper.
\<close>

datatype exit_fn = Original_exit | ThreadPool_exit

datatype sigint_fn = Original_handler | ThreadPool_sigint_handler

text \<open>The effects of the modelled code on the world outside it, in the order they occur.\<close>

datatype event =
  Exit_hook_installed | Sigint_hook_installed
  | Callback_called callback
  | Stop_put bool
  | Joined nat | Joined_timeout nat | Thread_killed nat | Join_warning nat
  | Reactor_trigger_added | Reactor_stop
  | Remote_launch string string
  | Ext_called ext_call

text \<open>
  The attributes of a \<^verbatim>\<open>ThreadPool\<close> object that \<^verbatim>\<open>__init__\<close>,
  \<^verbatim>\<open>register_on_shutdown\<close> and \<^verbatim>\<open>shutdown\<close> touch. \<open>put_front\<close> says
  whether \<^verbatim>\<open>self.q._put\<close> has been rebound to \<^verbatim>\<open>ThreadPool._put\<close>, which
  inserts at the left end of the queue's deque. The content of the queue, which the
  worker threads change concurrently, is modelled separately below.
\<close>

record pool =
  on_shutdowns :: "callback list"
  shutting_down :: bool
  joined :: bool
  workers :: nat
  threads :: "nat list"
  put_front :: bool

text \<open>
  The process: the class attributes \<^verbatim>\<open>ThreadPool.pools\<close>,
  \<^verbatim>\<open>sysexit_initial\<close> and \<^verbatim>\<open>sigint_initial\<close>, the two process-wide hooks, the
  pool objects by identity, the launcher of the process, and the effects so far.
\<close>

record world =
  pools :: "nat list"
  sysexit_initial :: "exit_fn option"
  sigint_initial :: "sigint_fn option"
  sys_exit :: exit_fn
  sigint :: sigint_fn
  heap :: "nat \<Rightarrow> pool"
  next_id :: nat
  launcher :: Launcher
  events :: "event list"

text \<open>
  A call returns, raises, or never comes back because it waits for a lock that its own
  thread holds. \<open>Out_of_fuel\<close> is the model's own: the recursion between
  \<^verbatim>\<open>Launcher.stop\<close> and \<^verbatim>\<open>ThreadPool.shutdown\<close> is bounded by a counter.
\<close>

datatype 'a outcome = Returns 'a | Raises error 'a | Deadlock | Out_of_fuel

definition then_do :: "'a outcome \<Rightarrow> ('a \<Rightarrow> 'a outcome) \<Rightarrow> 'a outcome" where
  "then_do m f = (case m of Returns w \<Rightarrow> f w | Raises e w \<Rightarrow> Raises e w
                  | Deadlock \<Rightarrow> Deadlock | Out_of_fuel \<Rightarrow> Out_of_fuel)"

definition log_event :: "event \<Rightarrow> world \<Rightarrow> world" where
  "log_event ev w = w\<lparr>events := events w @ [ev]\<rparr>"

definition ext_do :: "ext \<Rightarrow> ext_call \<Rightarrow> world \<Rightarrow> world outcome" where
  "ext_do x c w =
     (case raises x c of None \<Rightarrow> Returns (log_event (Ext_called c) w)
      | Some e \<Rightarrow> Raises e w)"

definition update_pool :: "nat \<Rightarrow> (pool \<Rightarrow> pool) \<Rightarrow> world \<Rightarrow> world" where
  "update_pool pid f w = w\<lparr>heap := (heap w)(pid := f (heap w pid))\<rparr>"

text \<open>
  \<^verbatim>\<open>ThreadPool.__init__\<close>: the new pool starts \<open>minthreads\<close> workers; when the
  registry is empty the two hooks are installed; the pool is appended to the registry.
  The result is the identity of the new pool and the new state.
\<close>

definition ThreadPool_init :: "nat \<Rightarrow> world \<Rightarrow> nat \<times> world" where
  "ThreadPool_init minthreads w =
     (let pid = next_id w;
          p = \<lparr>on_shutdowns = [], shutting_down = False, joined = False,
               workers = minthreads, threads = [0..<minthreads], put_front = False\<rparr>;
          w1 = w\<lparr>heap := (heap w)(pid := p), next_id := Suc pid\<rparr>;
          w2 = (if pools w1 = [] then
                  log_event Sigint_hook_installed
                    (log_event Exit_hook_installed
                      (w1\<lparr>sysexit_initial := Some (sys_exit w1),
                          sys_exit := ThreadPool_exit,
                          sigint_initial := Some (sigint w1),
                          sigint := ThreadPool_sigint_handler\<rparr>))
                else w1)
      in (pid, w2\<lparr>pools := pools w2 @ [pid]\<rparr>))"

definition register_on_shutdown :: "nat \<Rightarrow> callback \<Rightarrow> world \<Rightarrow> world" where
  "register_on_shutdown pid func w =
     update_pool pid (\<lambda>p. p\<lparr>on_shutdowns := on_shutdowns p @ [func]\<rparr>) w"

text \<open>
  The loop \<^verbatim>\<open>for on_shutdown, ind in zip(self.on_shutdowns, range(sdl))\<close>. The list is
  read while the callbacks run, so the loop ends at position \<open>sdl\<close> or at the current
  end of the list, whichever comes first. \<open>run_cb\<close> is what calling a callback does.
\<close>

function run_shutdowners ::
  "(callback \<Rightarrow> world \<Rightarrow> world outcome) \<Rightarrow> nat \<Rightarrow> nat \<Rightarrow> nat \<Rightarrow> world \<Rightarrow> world outcome"
where
  "run_shutdowners run_cb pid sdl i w =
     (if i < length (on_shutdowns (heap w pid)) \<and> i < sdl then
        (case run_cb (on_shutdowns (heap w pid) ! i)
                (log_event (Callback_called (on_shutdowns (heap w pid) ! i)) w) of
           Returns w' \<Rightarrow> run_shutdowners run_cb pid sdl (Suc i) w'
         | Raises e w' \<Rightarrow> Raises e w'
         | Deadlock \<Rightarrow> Deadlock
         | Out_of_fuel \<Rightarrow> Out_of_fuel)
      else Returns w)"
  by pat_completeness auto
termination
  by (relation "measure (\<lambda>(run_cb, pid, sdl, i, w). sdl - i)") auto

declare run_shutdowners.simps [simp del]

text \<open>The loop \<^verbatim>\<open>while self.workers: self.q.put(WorkerStop); self.workers -= 1\<close>.\<close>

fun put_stops :: "nat \<Rightarrow> nat \<Rightarrow> world \<Rightarrow> world" where
  "put_stops pid 0 w = w"
| "put_stops pid (Suc n) w =
     put_stops pid n
       (update_pool pid (\<lambda>p. p\<lparr>workers := workers p - 1\<rparr>)
          (log_event (Stop_put (put_front (heap w pid))) w))"

text \<open>The loop \<^verbatim>\<open>for thread in threads\<close> with its two ways of joining.\<close>

definition join_events :: "ext \<Rightarrow> bool \<Rightarrow> nat \<Rightarrow> event list" where
  "join_events x force t =
     (if \<not> force then [Joined t]
      else Joined_timeout t #
           (if alive_after_join x t
            then (if can_stop_thread x then [Thread_killed t] else []) @ [Join_warning t]
            else []))"

definition join_threads :: "ext \<Rightarrow> bool \<Rightarrow> nat list \<Rightarrow> world \<Rightarrow> world" where
  "join_threads x force ts w = w\<lparr>events := events w @ concat (map (join_events x force) ts)\<rparr>"

text \<open>\<^verbatim>\<open>ThreadPool.shutdown(execute_remaining, force, timeout)\<close>.\<close>

definition ThreadPool_shutdown ::
  "ext \<Rightarrow> (callback \<Rightarrow> world \<Rightarrow> world outcome) \<Rightarrow> nat \<Rightarrow> bool \<Rightarrow> bool \<Rightarrow> world
     \<Rightarrow> world outcome"
where
  "ThreadPool_shutdown x run_cb pid execute_remaining force w =
     (if pid \<notin> set (pools w) \<or> shutting_down (heap w pid) then Returns w
      else
        (let w1 = update_pool pid (\<lambda>p. p\<lparr>shutting_down := True\<rparr>) w;
             sdl = length (on_shutdowns (heap w1 pid))
         in then_do (run_shutdowners run_cb pid sdl 0 w1)
              (\<lambda>w2.
                 let w3 = update_pool pid (\<lambda>p. p\<lparr>on_shutdowns := [], joined := True\<rparr>) w2;
                     ts = threads (heap w3 pid);
                     w4 = (if \<not> execute_remaining
                           then update_pool pid (\<lambda>p. p\<lparr>put_front := True\<rparr>) w3 else w3);
                     w5 = put_stops pid (workers (heap w4 pid)) w4;
                     w6 = join_threads x force ts w5;
                     w7 = w6\<lparr>pools := remove1 pid (pools w6)\<rparr>
                 in Returns (update_pool pid (\<lambda>p. p\<lparr>shutting_down := False\<rparr>) w7))))"

section \<open>launcher.py: binding and stopping\<close>

text \<open>
  The decorator \<^verbatim>\<open>threadsafe\<close>: the body runs inside \<^verbatim>\<open>with self._lock\<close>. The
  lock is a \<^verbatim>\<open>threading.Lock\<close>, which is not reentrant: acquiring it while it is
  held blocks, and when the holder is the calling thread itself the call never returns.
  The modelled code runs on one thread.
\<close>

definition threadsafe :: "(world \<Rightarrow> world outcome) \<Rightarrow> world \<Rightarrow> world outcome" where
  "threadsafe body w =
     (if lock_held (launcher w) then Deadlock
      else (case body (w\<lparr>launcher := (launcher w)\<lparr>lock_held := True\<rparr>\<rparr>) of
              Returns w' \<Rightarrow> Returns (w'\<lparr>launcher := (launcher w')\<lparr>lock_held := False\<rparr>\<rparr>)
            | Raises e w' \<Rightarrow> Raises e (w'\<lparr>launcher := (launcher w')\<lparr>lock_held := False\<rparr>\<rparr>)
            | Deadlock \<Rightarrow> Deadlock
            | Out_of_fuel \<Rightarrow> Out_of_fuel))"

text \<open>
  Calling a shutdown callback. \<open>stop_fn\<close> is \<^verbatim>\<open>Launcher.stop\<close>; an external
  callback returns or raises as the oracle says and changes nothing that is modelled.
\<close>

definition run_callback ::
  "ext \<Rightarrow> (world \<Rightarrow> world outcome) \<Rightarrow> callback \<Rightarrow> world \<Rightarrow> world outcome" where
  "run_callback x stop_fn cb w =
     (case cb of
        Launcher_stop_cb \<Rightarrow> stop_fn w
      | External n \<Rightarrow> (case raises x (Callback n) of None \<Rightarrow> Returns w
                        | Some e \<Rightarrow> Raises e w))"

text \<open>
  \<^verbatim>\<open>Launcher._on_stop\<close>. Without a bound workflow the attribute access
  \<^verbatim>\<open>self.workflow.plotters_are_enabled\<close> fails on \<^verbatim>\<open>None\<close>.
\<close>

definition on_stop :: "ext \<Rightarrow> (world \<Rightarrow> world outcome) \<Rightarrow> world \<Rightarrow> world outcome" where
  "on_stop x stop_fn w =
     (let w1 = w\<lparr>launcher := (launcher w)\<lparr>initialized := False, running := False\<rparr>\<rparr>
      in then_do
           (if reports_web_status (launcher w1) then
              then_do (ext_do x Notify_task_stop w1)
                (\<lambda>w. then_do (ext_do x IOLoop_stop w) (ext_do x Thread_join))
            else Returns w1)
           (\<lambda>w2. case workflow (launcher w2) of
                    None \<Rightarrow> Raises AttributeError w2
                  | Some wkf \<Rightarrow>
                      then_do
                        (if plotters_are_enabled wkf then ext_do x Graphics_teardown w2
                         else Returns w2)
                        (ThreadPool_shutdown x (run_callback x stop_fn) (thread_pool wkf)
                           True False)))"

text \<open>The body of \<^verbatim>\<open>Launcher.stop\<close>, inside the lock.\<close>

definition stop_body :: "ext \<Rightarrow> (world \<Rightarrow> world outcome) \<Rightarrow> world \<Rightarrow> world outcome" where
  "stop_body x stop_fn w =
     (if \<not> initialized (launcher w) then Returns w
      else (case mode (launcher w) of
              Inl e \<Rightarrow> Raises e w
            | Inr m \<Rightarrow>
                if \<not> running (launcher w) then on_stop x stop_fn w
                else Returns (log_event Reactor_stop w)))"

text \<open>
  \<^verbatim>\<open>Launcher.stop\<close>. The callback that \<^verbatim>\<open>_on_stop\<close> reaches through the pool is
  \<^verbatim>\<open>stop\<close> again; the counter bounds that recursion.
\<close>

primrec Launcher_stop :: "ext \<Rightarrow> nat \<Rightarrow> world \<Rightarrow> world outcome" where
  "Launcher_stop x 0 w = Out_of_fuel"
| "Launcher_stop x (Suc n) w = threadsafe (stop_body x (Launcher_stop x n)) w"

text \<open>\<^verbatim>\<open>pool.shutdown(...)\<close> called from outside the launcher.\<close>

definition pool_shutdown ::
  "ext \<Rightarrow> nat \<Rightarrow> nat \<Rightarrow> bool \<Rightarrow> bool \<Rightarrow> world \<Rightarrow> world outcome" where
  "pool_shutdown x fuel pid execute_remaining force w =
     ThreadPool_shutdown x (run_callback x (Launcher_stop x fuel)) pid execute_remaining force w"

text \<open>
  \<^verbatim>\<open>Launcher._launch_status\<close> and \<^verbatim>\<open>Launcher.add_ref\<close>. \<open>web_status\<close> is the host
  and the program of the status server, from the configuration.
\<close>

definition launch_status :: "ext \<Rightarrow> string \<times> string \<Rightarrow> world \<Rightarrow> world outcome" where
  "launch_status x web_status w =
     (if \<not> reports_web_status (launcher w) then Returns w
      else then_do (ext_do x Status_probe w)
             (\<lambda>w1. if \<not> status_reachable x
                    then Returns (log_event (Remote_launch (fst web_status) (snd web_status)) w1)
                    else Returns w1))"

definition launch_nodes_in :: "environ \<Rightarrow> world \<Rightarrow> world outcome" where
  "launch_nodes_in env w =
     (case launch_nodes env (launcher w) of
        (ls, r) \<Rightarrow>
          (let w1 = w\<lparr>events := events w @ map (\<lambda>(h, p). Remote_launch h p) ls\<rparr>
           in case r of None \<Rightarrow> Returns w1 | Some e \<Rightarrow> Raises e w1))"

definition add_ref_body ::
  "ext \<Rightarrow> environ \<Rightarrow> string \<times> string \<Rightarrow> workflow_obj \<Rightarrow> world \<Rightarrow> world outcome" where
  "add_ref_body x env web_status wkf w =
     (let w1 = register_on_shutdown (thread_pool wkf) Launcher_stop_cb w;
          w2 = log_event Reactor_trigger_added w1;
          L = launcher w2;
          wkf' = (if is_slave L \<or> matplotlib_backend (largs L) = []
                 then wkf\<lparr>plotters_are_enabled := False\<rparr> else wkf);
          w3 = w2\<lparr>launcher := L\<lparr>workflow := Some wkf'\<rparr>\<rparr>
      in then_do
           (if is_slave L then
              then_do (ext_do x Client_ctor w3)
                (\<lambda>w. Returns (w\<lparr>launcher := (launcher w)
                                  \<lparr>agent := Some (Client (master_address (largs L)))\<rparr>\<rparr>))
            else
              then_do (if reports_web_status L then launch_status x web_status w3
                       else Returns w3)
                (\<lambda>w4. then_do (if plotters_are_enabled wkf' then ext_do x Graphics_launch w4
                                else Returns w4)
                   (\<lambda>w5. if is_master L then
                            then_do (ext_do x Server_ctor w5)
                              (\<lambda>w6. launch_nodes_in env
                                 (w6\<lparr>launcher := (launcher w6)
                                     \<lparr>agent := Some (Server (listen_address (largs L)))\<rparr>\<rparr>))
                          else Returns w5)))
           (\<lambda>w7. Returns (w7\<lparr>launcher := (launcher w7)\<lparr>initialized := True\<rparr>\<rparr>)))"

definition add_ref ::
  "ext \<Rightarrow> environ \<Rightarrow> string \<times> string \<Rightarrow> workflow_obj \<Rightarrow> world \<Rightarrow> world outcome" where
  "add_ref x env web_status wkf w = threadsafe (add_ref_body x env web_status wkf) w"

text \<open>
  \<^verbatim>\<open>ThreadPool.shutdown_pools\<close>: every pool of a snapshot of the registry is shut
  down in turn.
\<close>

fun shutdown_list ::
  "ext \<Rightarrow> nat \<Rightarrow> bool \<Rightarrow> bool \<Rightarrow> nat list \<Rightarrow> world \<Rightarrow> world outcome" where
  "shutdown_list x fuel execute_remaining force [] w = Returns w"
| "shutdown_list x fuel execute_remaining force (pid # ps) w =
     then_do (pool_shutdown x fuel pid execute_remaining force w)
       (shutdown_list x fuel execute_remaining force ps)"

definition shutdown_pools :: "ext \<Rightarrow> nat \<Rightarrow> bool \<Rightarrow> bool \<Rightarrow> world \<Rightarrow> world outcome" where
  "shutdown_pools x fuel execute_remaining force w =
     shutdown_list x fuel execute_remaining force (pools w) w"

text \<open>
  Calling \<^verbatim>\<open>sys.exit(retcode)\<close>. The original function ends the process by raising
  \<^verbatim>\<open>SystemExit\<close>. The wrapper \<^verbatim>\<open>ThreadPool.exit\<close> shuts the pools down, puts
  \<^verbatim>\<open>sysexit_initial\<close> back and calls \<^verbatim>\<open>sys.exit\<close> again; \<open>depth\<close> bounds the
  nesting of these calls, as the interpreter's recursion limit does.
\<close>

primrec call_sys_exit :: "ext \<Rightarrow> nat \<Rightarrow> nat \<Rightarrow> world \<Rightarrow> world outcome" where
  "call_sys_exit x fuel 0 w = Out_of_fuel"
| "call_sys_exit x fuel (Suc depth) w =
     (case sys_exit w of
        Original_exit \<Rightarrow> Raises SystemExit w
      | ThreadPool_exit \<Rightarrow>
          then_do (shutdown_pools x fuel True False w)
            (\<lambda>w1. case sysexit_initial w1 of
                     None \<Rightarrow> Raises TypeError w1
                   | Some f \<Rightarrow> call_sys_exit x fuel depth (w1\<lparr>sys_exit := f\<rparr>)))"

text \<open>
  A sequence of pool constructions and shutdowns in one process, run from left to right.
\<close>

datatype pool_op = Construct nat | Shutdown nat bool bool

fun run_ops :: "ext \<Rightarrow> pool_op list \<Rightarrow> world \<Rightarrow> world outcome" where
  "run_ops x [] w = Returns w"
| "run_ops x (Construct minthreads # ops) w = run_ops x ops (snd (ThreadPool_init minthreads w))"
| "run_ops x (Shutdown pid execute_remaining force # ops) w =
     then_do (pool_shutdown x 2 pid execute_remaining force w) (run_ops x ops)"

section \<open>Example processes\<close>

text \<open>
  The process before any pool exists, with a given launcher; and an oracle under which
  no outside call raises, the status server is reachable and every thread ends when
  joined.
\<close>

definition no_pool :: pool where
  "no_pool = \<lparr>on_shutdowns = [], shutting_down = False, joined = False, workers = 0,
              threads = [], put_front = False\<rparr>"

definition initial_world :: "Launcher \<Rightarrow> world" where
  "initial_world L =
     \<lparr>pools = [], sysexit_initial = None, sigint_initial = None,
      sys_exit = Original_exit, sigint = Original_handler,
      heap = (\<lambda>_. no_pool), next_id = 0, launcher = L, events = []\<rparr>"

definition quiet :: ext where
  "quiet = \<lparr>raises = (\<lambda>_. None), status_reachable = True,
            alive_after_join = (\<lambda>_. False), can_stop_thread = True\<rparr>"

text \<open>
  A launcher for examples: standalone, no status reports, no plotting; and the
  process in which a pool of three workers has been created and a workflow owning that
  pool has been bound to this launcher, nothing having been run.
\<close>

definition stealth_standalone :: Launcher where
  "stealth_standalone =
     \<lparr>largs = \<lparr>master_address = [], listen_address = [], matplotlib_backend = [],
               background = False, stealth = True, nodes = [], log_file = []\<rparr>,
      slaves_field = [], lock_held = False, webagg_port = 0, agent = None,
      workflow = None, initialized = False, running = False\<rparr>"

definition example_env :: environ where
  "example_env = \<lparr>prog_path = ''/v/run.py'', argv_tail = [''wf.py'', ''-s''], hostname = ''box''\<rparr>"

definition bound_world :: world where
  "bound_world =
     (case add_ref quiet example_env (''status-host'', ''/v/web_status.py'')
             \<lparr>thread_pool = 0, plotters_are_enabled = True\<rparr>
             (snd (ThreadPool_init 3 (initial_world stealth_standalone))) of
        Returns w \<Rightarrow> w
      | _ \<Rightarrow> initial_world stealth_standalone)"


section \<open>tests/network.py: the workflow of the contract test\<close>

text \<open>
  What \<^verbatim>\<open>pickle.loads\<close> can return, as far as \<^verbatim>\<open>isinstance(obj, dict)\<close> needs to
  tell values apart. The function itself is a parameter of the model.
\<close>

datatype pyobj =
  PyNone | PyBool bool | PyInt int | PyStr string
  | PyList "pyobj list" | PyDict "(pyobj \<times> pyobj) list"

fun isinstance_dict :: "pyobj \<Rightarrow> bool" where
  "isinstance_dict (PyDict kvs) = True"
| "isinstance_dict _ = False"

text \<open>The class attributes of \<^verbatim>\<open>TestWorkflow\<close>, all \<^verbatim>\<open>False\<close> at first.\<close>

record TestWorkflow =
  job_requested :: bool
  job_done :: bool
  update_applied :: bool
  power_requested :: bool
  job_dropped :: bool

definition TestWorkflow_class :: TestWorkflow where
  "TestWorkflow_class = \<lparr>job_requested = False, job_done = False, update_applied = False,
                          power_requested = False, job_dropped = False\<rparr>"

definition apply_update ::
  "(string \<Rightarrow> error + pyobj) \<Rightarrow> string \<Rightarrow> TestWorkflow \<Rightarrow> (error + bool) \<times> TestWorkflow" where
  "apply_update loads update st =
     (case loads update of
        Inl e \<Rightarrow> (Inl e, st)
      | Inr obj \<Rightarrow>
          if isinstance_dict obj then (Inr True, st\<lparr>update_applied := True\<rparr>)
          else (Inr False, st))"

text \<open>A deserialiser for examples: it knows two payloads and rejects any other.\<close>

definition example_loads :: "string \<Rightarrow> error + pyobj" where
  "example_loads s =
     (if s = ''job'' then Inr (PyDict [(PyStr ''objective'', PyStr ''win'')])
      else if s = ''numbers'' then Inr (PyList [PyInt 1, PyInt 2])
      else Inl UnpicklingError)"

section \<open>opencl.py: device information and the performance cache\<close>

text \<open>
  A Python \<^verbatim>\<open>dict\<close> with string keys is a list of pairs in iteration order, without
  repeated keys: \<open>map_of\<close> reads it, \<open>AList.update\<close> is the assignment
  \<^verbatim>\<open>d[k] = v\<close>, and \<open>getitem\<close> is the read \<^verbatim>\<open>d[k]\<close>, which raises on a missing
  key. Times are Python floats; they are modelled as exact rationals, so rounding is not
  part of the model.
\<close>

type_synonym 'v dict = "(string \<times> 'v) list"

definition getitem :: "'v dict \<Rightarrow> string \<Rightarrow> error + 'v" where
  "getitem d k = (case map_of d k of None \<Rightarrow> Inl KeyError | Some v \<Rightarrow> Inr v)"

definition dict_update :: "'v dict \<Rightarrow> 'v dict \<Rightarrow> 'v dict" where
  "dict_update d other = fold (\<lambda>(k, v). AList.update k v) other d"

definition fromkeys :: "string list \<Rightarrow> 'v \<Rightarrow> 'v dict" where
  "fromkeys ks v = fold (\<lambda>k. AList.update k v) ks []"

definition bind_err :: "error + 'a \<Rightarrow> ('a \<Rightarrow> error + 'b) \<Rightarrow> error + 'b" where
  "bind_err m f = (case m of Inl e \<Rightarrow> Inl e | Inr v \<Rightarrow> f v)"

definition py_div :: "rat \<Rightarrow> rat \<Rightarrow> error + rat" where
  "py_div a b = (if b = 0 then Inl ZeroDivisionError else Inr (a / b))"

record DeviceInfo =
  desc :: string
  memsize :: nat
  memalign :: nat
  version :: rat
  rating :: "rat dict"
  dt :: "rat dict"
  min_dt :: "rat dict"
  BLOCK_SIZE :: "nat dict"

text \<open>
  \<^verbatim>\<open>DeviceInfo.__init__\<close>. \<open>dtypes\<close> stands for \<^verbatim>\<open>opencl_types.dtypes.keys()\<close>;
  the table is not part of the sources and is a parameter throughout.
\<close>

definition DeviceInfo_init :: "string list \<Rightarrow> string \<Rightarrow> nat \<Rightarrow> nat \<Rightarrow> rat \<Rightarrow> DeviceInfo" where
  "DeviceInfo_init dtypes d ms ma v =
     \<lparr>desc = d, memsize = ms, memalign = ma, version = v,
      rating = fromkeys dtypes 0, dt = fromkeys dtypes 86400,
      min_dt = fromkeys dtypes 86400, BLOCK_SIZE = fromkeys dtypes 8\<rparr>"

text \<open>
  The values of the cache dictionary are objects. After
  \<^verbatim>\<open>device_infos[self.device_info.desc] = self.device_info\<close> one of them is the
  device's own object, which \<^verbatim>\<open>_do_tests\<close> also changes through \<^verbatim>\<open>self\<close>; the
  others are the objects that were read from the file.
\<close>

datatype info_ref = Self | Stored DeviceInfo

fun deref :: "DeviceInfo \<Rightarrow> info_ref \<Rightarrow> DeviceInfo" where
  "deref di Self = di"
| "deref di (Stored d) = d"

text \<open>
  One pass of the two nested loops of \<^verbatim>\<open>_do_tests\<close> makes three calls whose outcome
  is decided by numpy, the OpenCL device and the clock: \<^verbatim>\<open>_prepare_test\<close>,
  \<^verbatim>\<open>_do_cpu_test\<close>, which returns the time of the reference computation and stores
  its result in \<^verbatim>\<open>cc\<close>, and \<^verbatim>\<open>_do_test\<close>, which returns the time of the device.
  Each returns or raises; what they do for a block size and a type is an input of the
  model. \<open>c_bound\<close> tells whether \<^verbatim>\<open>self.c\<close>, the last attribute that
  \<^verbatim>\<open>_prepare_test\<close> assigns, is bound when that method raises.
\<close>

datatype 'a attempt = Done 'a | Fails error

record measurement =
  prepare :: "unit attempt"
  c_bound :: bool
  cpu :: "rat attempt"
  dev :: "rat attempt"

text \<open>
  The local state of \<^verbatim>\<open>_do_tests\<close>: the keys of \<^verbatim>\<open>cc\<close> that hold a reference
  result, \<^verbatim>\<open>dt_numpy\<close>, \<^verbatim>\<open>min_dt\<close>, and \<^verbatim>\<open>self.device_info\<close>.
\<close>

record bench =
  cc :: "string list"
  dt_numpy :: "rat dict"
  min_dt_loc :: "rat dict"
  self_info :: DeviceInfo

definition cc_key :: "string \<Rightarrow> string" where
  "cc_key name = name @ ''_3001_3001_3001''"

text \<open>
  What the \<^verbatim>\<open>except RuntimeError\<close> clause does with an exception raised in the
  \<^verbatim>\<open>try\<close> block: a \<^verbatim>\<open>RuntimeError\<close> is logged and the loop goes on with the
  state reached so far; any other exception leaves \<^verbatim>\<open>_do_tests\<close>.
\<close>

definition caught :: "error \<Rightarrow> bench \<Rightarrow> error + bench" where
  "caught e b = (if e = RuntimeError then Inr b else Inl e)"

text \<open>
  The same clause when \<^verbatim>\<open>_prepare_test\<close> raised: the
  \<^verbatim>\<open>_cleanup_after_test\<close> of the handler starts with \<^verbatim>\<open>del(self.c)\<close>, which
  raises \<^verbatim>\<open>AttributeError\<close> when the attribute is not bound.
\<close>

definition prepare_caught :: "error \<Rightarrow> bool \<Rightarrow> bench \<Rightarrow> error + bench" where
  "prepare_caught e bound b =
     (if e = RuntimeError then (if bound then Inr b else Inl AttributeError) else Inl e)"

text \<open>The reference computation, made when \<^verbatim>\<open>cc\<close> has no result for the type yet.\<close>

definition cpu_part :: "string \<Rightarrow> rat \<Rightarrow> bench \<Rightarrow> error + bench" where
  "cpu_part dtype t b =
     bind_err (getitem (dt_numpy b) dtype) (\<lambda>dn.
       let b1 = b\<lparr>cc := cc b @ [cc_key dtype]\<rparr>;
           b2 = (if t < dn then b1\<lparr>dt_numpy := AList.update dtype t (dt_numpy b1)\<rparr> else b1)
       in bind_err (getitem (dt_numpy b2) dtype) (\<lambda>dn'.
            bind_err (getitem (min_dt_loc b2) dtype) (\<lambda>m.
              Inr (if dn' < m then b2\<lparr>min_dt_loc := AList.update dtype dn' (min_dt_loc b2)\<rparr>
                   else b2))))"

text \<open>The device's measurement and the lookup of the reference result that follows it.\<close>

definition dev_part :: "nat \<Rightarrow> string \<Rightarrow> rat \<Rightarrow> bench \<Rightarrow> error + bench" where
  "dev_part block_size dtype t b =
     bind_err (getitem (dt (self_info b)) dtype) (\<lambda>own.
       let b1 = (if t < own
                 then b\<lparr>self_info := (self_info b)
                          \<lparr>dt := AList.update dtype t (dt (self_info b)),
                           BLOCK_SIZE := AList.update dtype block_size
                                           (BLOCK_SIZE (self_info b))\<rparr>\<rparr>
                 else b)
       in bind_err (getitem (min_dt_loc b1) dtype) (\<lambda>m.
            let b2 = (if t < m then b1\<lparr>min_dt_loc := AList.update dtype t (min_dt_loc b1)\<rparr>
                      else b1)
            in if dtype = [] then Inl IndexError
               else if cc_key (if last dtype = CHR ''2'' then ''double2'' else ''double'')
                         \<in> set (cc b2)
               then Inr b2 else Inl KeyError))"

text \<open>The body of the inner loop, for one block size and one type.\<close>

definition device_part ::
  "(nat \<Rightarrow> string \<Rightarrow> measurement) \<Rightarrow> nat \<Rightarrow> string \<Rightarrow> bench \<Rightarrow> error + bench" where
  "device_part meas block_size dtype b =
     (case dev (meas block_size dtype) of
        Fails e \<Rightarrow> caught e b
      | Done t \<Rightarrow> dev_part block_size dtype t b)"

definition sweep_step ::
  "(nat \<Rightarrow> string \<Rightarrow> measurement) \<Rightarrow> nat \<Rightarrow> string \<Rightarrow> bench \<Rightarrow> error + bench" where
  "sweep_step meas block_size dtype b =
     (case prepare (meas block_size dtype) of
        Fails e \<Rightarrow> prepare_caught e (c_bound (meas block_size dtype)) b
      | Done u \<Rightarrow>
          if cc_key dtype \<notin> set (cc b) then
            (case cpu (meas block_size dtype) of
               Fails e \<Rightarrow> caught e b
             | Done t \<Rightarrow>
                 bind_err (cpu_part dtype t b) (device_part meas block_size dtype))
          else device_part meas block_size dtype b)"

text \<open>
  The two loops: \<^verbatim>\<open>for BLOCK_SIZE in range(32, 3, -1)\<close> around
  \<^verbatim>\<open>for dtype in sorted(opencl_types.dtypes.keys())\<close>.
\<close>

fun sweep_types ::
  "(nat \<Rightarrow> string \<Rightarrow> measurement) \<Rightarrow> nat \<Rightarrow> string list \<Rightarrow> bench \<Rightarrow> error + bench" where
  "sweep_types meas block_size [] b = Inr b"
| "sweep_types meas block_size (ty # tys) b =
     bind_err (sweep_step meas block_size ty b) (sweep_types meas block_size tys)"

fun sweep_blocks ::
  "(nat \<Rightarrow> string \<Rightarrow> measurement) \<Rightarrow> nat list \<Rightarrow> string list \<Rightarrow> bench \<Rightarrow> error + bench" where
  "sweep_blocks meas [] tys b = Inr b"
| "sweep_blocks meas (bs # bss) tys b =
     bind_err (sweep_types meas bs tys b) (sweep_blocks meas bss tys)"

definition block_sizes :: "nat list" where
  "block_sizes = rev [4..<33]"

text \<open>
  The loop that logs the rating of the reference computation; the division can raise.
\<close>

fun log_numpy :: "string list \<Rightarrow> bench \<Rightarrow> error + unit" where
  "log_numpy [] b = Inr ()"
| "log_numpy (ty # tys) b =
     bind_err (getitem (min_dt_loc b) ty) (\<lambda>m.
       bind_err (getitem (dt_numpy b) ty) (\<lambda>n.
         bind_err (py_div m n) (\<lambda>r. log_numpy tys b)))"

text \<open>The rating loop for one device and one type, and for all types and devices.\<close>

definition rate_one :: "rat dict \<Rightarrow> string \<Rightarrow> DeviceInfo \<Rightarrow> error + DeviceInfo" where
  "rate_one m ty d =
     bind_err (getitem m ty) (\<lambda>mv.
       bind_err (getitem (dt d) ty) (\<lambda>t.
         bind_err (py_div mv t) (\<lambda>r.
           bind_err (getitem (rating d) ty) (\<lambda>old.
             Inr (d\<lparr>rating := AList.update ty r (rating d),
                    min_dt := AList.update ty mv (min_dt d)\<rparr>)))))"

fun rate_types :: "rat dict \<Rightarrow> string list \<Rightarrow> DeviceInfo \<Rightarrow> error + DeviceInfo" where
  "rate_types m [] d = Inr d"
| "rate_types m (ty # tys) d = bind_err (rate_one m ty d) (rate_types m tys)"

fun rate_all ::
  "rat dict \<Rightarrow> string list \<Rightarrow> DeviceInfo \<Rightarrow> (string \<times> info_ref) list
     \<Rightarrow> error + (DeviceInfo \<times> (string \<times> info_ref) list)" where
  "rate_all m tys di [] = Inr (di, [])"
| "rate_all m tys di ((k, Self) # rest) =
     bind_err (rate_types m tys di) (\<lambda>di'.
       bind_err (rate_all m tys di' rest) (\<lambda>(di'', rest'). Inr (di'', (k, Self) # rest')))"
| "rate_all m tys di ((k, Stored d) # rest) =
     bind_err (rate_types m tys d) (\<lambda>d'.
       bind_err (rate_all m tys di rest) (\<lambda>(di'', rest'). Inr (di'', (k, Stored d') # rest')))"

text \<open>
  \<^verbatim>\<open>_do_tests\<close>. The start of \<^verbatim>\<open>min_dt\<close> is the never-measured value, overwritten
  by what the first value of the cache dictionary records (the loop over the values
  ends with \<^verbatim>\<open>break\<close>). The result is the device's own object, the cache, and
  \<^verbatim>\<open>dt_numpy\<close>, whose ratings the method logs.
\<close>

definition seed_min_dt :: "string list \<Rightarrow> DeviceInfo \<Rightarrow> (string \<times> info_ref) list \<Rightarrow> rat dict" where
  "seed_min_dt dtypes di infos =
     (case infos of
        [] \<Rightarrow> fromkeys dtypes 86400
      | (k, r) # rest \<Rightarrow> dict_update (fromkeys dtypes 86400) (min_dt (deref di r)))"

definition do_tests ::
  "string list \<Rightarrow> (nat \<Rightarrow> string \<Rightarrow> measurement) \<Rightarrow> DeviceInfo \<Rightarrow> (string \<times> info_ref) list
     \<Rightarrow> error + (DeviceInfo \<times> (string \<times> info_ref) list \<times> rat dict)" where
  "do_tests dtypes meas di infos =
     (let b0 = \<lparr>cc = [], dt_numpy = fromkeys dtypes 86400,
                min_dt_loc = seed_min_dt dtypes di infos,
                self_info = di\<lparr>dt := map (\<lambda>(k, v). (k, 86400)) (dt di)\<rparr>\<rparr>;
          tys = sort dtypes
      in bind_err (sweep_blocks meas block_sizes tys b0) (\<lambda>b.
           bind_err (log_numpy tys b) (\<lambda>u.
             bind_err (rate_all (min_dt_loc b) tys (self_info b) infos) (\<lambda>(di', infos').
               Inr (di', infos', dt_numpy b)))))"

text \<open>
  \<^verbatim>\<open>_fill_device_info_performance_values\<close>. Reading the cache file raises or yields
  the dictionary; writing it raises or not. The result is the device's information and
  the dictionary that was written, if one was.
\<close>

record config =
  test_known_device :: bool
  test_unknown_device :: bool

datatype cache_read = Read_raises error | Loaded "DeviceInfo dict"

definition fill_device_info_performance_values ::
  "config \<Rightarrow> string list \<Rightarrow> cache_read \<Rightarrow> error option \<Rightarrow> (nat \<Rightarrow> string \<Rightarrow> measurement)
     \<Rightarrow> DeviceInfo \<Rightarrow> error + (DeviceInfo \<times> DeviceInfo dict option)" where
  "fill_device_info_performance_values cfg dtypes rd wr meas di =
     bind_err
       (case rd of
          Read_raises e \<Rightarrow> if e = IOError then Inr [] else Inl e
        | Loaded c \<Rightarrow> Inr c)
       (\<lambda>device_infos.
          if \<not> test_known_device cfg \<and> map_of device_infos (desc di) \<noteq> None then
            bind_err (getitem device_infos (desc di)) (\<lambda>c.
              Inr (di\<lparr>rating := dict_update (rating di) (rating c),
                      BLOCK_SIZE := dict_update (BLOCK_SIZE di) (BLOCK_SIZE c),
                      dt := dict_update (dt di) (dt c),
                      min_dt := dict_update (min_dt di) (min_dt c)\<rparr>, None))
          else if \<not> test_unknown_device cfg then Inr (di, None)
          else
            bind_err
              (do_tests dtypes meas di
                 (AList.update (desc di) Self (map (\<lambda>(k, d). (k, Stored d)) device_infos)))
              (\<lambda>(di', infos', dtn).
                 case wr of
                   Some e \<Rightarrow> Inl e
                 | None \<Rightarrow> Inr (di', Some (map (\<lambda>(k, r). (k, deref di' r)) infos'))))"






text \<open>A cached record is well formed when none of its dictionaries repeats a key.\<close>

definition wf_info :: "DeviceInfo \<Rightarrow> bool" where
  "wf_info d = (distinct (map fst (rating d)) \<and> distinct (map fst (dt d))
                \<and> distinct (map fst (min_dt d)) \<and> distinct (map fst (BLOCK_SIZE d)))"

section \<open>Example devices and benchmarking passes\<close>

text \<open>
  A device that was never rated; the record a pass leaves for it when every reference
  computation takes 2 seconds and every run on the device 4; a rated device as the
  cache file holds it; a pass in which the reference computation takes 5 seconds and
  the device 4 at block size 16 and 6 at any other; the record that pass leaves; the
  fresh record of a device that the cache knows; and a configuration that forces no
  test.
\<close>

definition fresh :: DeviceInfo where
  "fresh = DeviceInfo_init [''double''] ''V/N/1'' 1024 128 (12 / 10)"


definition rival :: DeviceInfo where
  "rival = (DeviceInfo_init [''double''] ''W/M/2'' 2048 128 (12 / 10))
             \<lparr>rating := [(''double'', 1)], dt := [(''double'', 3)], min_dt := [(''double'', 3)],
              BLOCK_SIZE := [(''double'', 24)]\<rparr>"

definition cpu_loses :: "nat \<Rightarrow> string \<Rightarrow> measurement" where
  "cpu_loses bs ty = \<lparr>prepare = Done (), c_bound = True, cpu = Done 5,
                       dev = Done (if bs = 16 then 4 else 6)\<rparr>"


definition known :: DeviceInfo where
  "known = DeviceInfo_init [''double''] ''W/M/2'' 2048 128 (12 / 10)"

definition adopt_only :: config where
  "adopt_only = \<lparr>test_known_device = False, test_unknown_device = False\<rparr>"

section \<open>Helper lemmas: strings and numbers\<close>
























section \<open>Helper lemmas: the pool and the launcher\<close>



lemma put_stops_launcher: "launcher (put_stops pid n w) = launcher w"
  by (induction n arbitrary: w) (simp_all add: update_pool_def log_event_def)



lemma mode_total: "\<exists>m. mode L = Inr m"
  by (simp add: mode_def is_standalone_def)

lemma stop_under_lock: "lock_held (launcher w) \<Longrightarrow> Launcher_stop x n w \<noteq> Returns w'"
  by (cases n) (simp_all add: threadsafe_def)

lemma callbacks_under_lock:
  assumes "lock_held (launcher w)"
    and "Launcher_stop_cb \<in> set (drop i (take sdl (on_shutdowns (heap w pid))))"
  shows "run_shutdowners (run_callback x (Launcher_stop x n)) pid sdl i w \<noteq> Returns w'"
  using assms
proof (induction "run_callback x (Launcher_stop x n)" pid sdl i w rule: run_shutdowners.induct)
  case (1 pid sdl i w)
  let ?cbs = "on_shutdowns (heap w pid)"
  let ?w1 = "log_event (Callback_called (?cbs ! i)) w"
  let ?rc = "run_callback x (Launcher_stop x n)"
  have "drop i (take sdl ?cbs) \<noteq> []" using "1.prems"(2) by auto
  then have "i < length (take sdl ?cbs)" by (simp add: not_le)
  then have il: "i < length ?cbs" "i < sdl" by simp_all
  have d: "drop i (take sdl ?cbs) = (?cbs ! i) # drop (Suc i) (take sdl ?cbs)"
    using il by (simp add: Cons_nth_drop_Suc[symmetric])
  have l1: "lock_held (launcher ?w1)" "heap ?w1 = heap w"
    using "1.prems"(1) by (simp_all add: log_event_def)
  show ?case
  proof (cases "?cbs ! i")
    case Launcher_stop_cb
    then have "?rc (?cbs ! i) ?w1 = Launcher_stop x n ?w1"
      by (simp add: run_callback_def)
    moreover have "Launcher_stop x n ?w1 \<noteq> Returns w''" for w''
      using stop_under_lock[OF l1(1)] by simp
    ultimately show ?thesis
      using il by (simp add: run_shutdowners.simps[of ?rc pid sdl i w] split: outcome.splits)
  next
    case (External k)
    show ?thesis
    proof (cases "raises x (Callback k)")
      case (Some e)
      then show ?thesis
        using il External
        by (simp add: run_shutdowners.simps[of ?rc pid sdl i w] run_callback_def)
    next
      case None
      then have r: "?rc (?cbs ! i) ?w1 = Returns ?w1"
        using External by (simp add: run_callback_def)
      have "Launcher_stop_cb \<in> set (drop (Suc i) (take sdl (on_shutdowns (heap ?w1 pid))))"
        using "1.prems"(2) d External l1(2) by auto
      then have "run_shutdowners ?rc pid sdl (Suc i) ?w1 \<noteq> Returns w'"
        using "1.hyps"[OF _ r l1(1)] il by simp
      then show ?thesis
        using il r by (simp add: run_shutdowners.simps[of ?rc pid sdl i w])
    qed
  qed
qed

lemma shutdown_under_lock:
  assumes "lock_held (launcher w)"
    and "pid \<in> set (pools w)" and "\<not> shutting_down (heap w pid)"
    and "Launcher_stop_cb \<in> set (on_shutdowns (heap w pid))"
  shows "ThreadPool_shutdown x (run_callback x (Launcher_stop x n)) pid er force w \<noteq> Returns w'"
proof -
  let ?w1 = "update_pool pid (\<lambda>p. p\<lparr>shutting_down := True\<rparr>) w"
  have "lock_held (launcher ?w1)" using assms(1) by (simp add: update_pool_def)
  moreover have "Launcher_stop_cb \<in> set (drop 0 (take (length (on_shutdowns (heap ?w1 pid)))
                     (on_shutdowns (heap ?w1 pid))))"
    using assms(4) by (simp add: update_pool_def)
  ultimately have "run_shutdowners (run_callback x (Launcher_stop x n)) pid
      (length (on_shutdowns (heap ?w1 pid))) 0 ?w1 \<noteq> Returns w''" for w''
    using callbacks_under_lock by blast
  then show ?thesis
    using assms(2,3)
    by (simp add: ThreadPool_shutdown_def Let_def then_do_def split: outcome.splits)
qed

lemma ext_do_frame:
  "ext_do x c w = Returns w' \<Longrightarrow>
     launcher w' = launcher w \<and> heap w' = heap w \<and> pools w' = pools w"
  by (auto simp: ext_do_def log_event_def split: option.splits)

lemma on_stop_under_lock:
  assumes "lock_held (launcher w)" and "workflow (launcher w) = Some wkf"
    and "thread_pool wkf \<in> set (pools w)" and "\<not> shutting_down (heap w (thread_pool wkf))"
    and "Launcher_stop_cb \<in> set (on_shutdowns (heap w (thread_pool wkf)))"
  shows "on_stop x (Launcher_stop x n) w \<noteq> Returns w'"
proof
  assume r: "on_stop x (Launcher_stop x n) w = Returns w'"
  let ?w1 = "w\<lparr>launcher := (launcher w)\<lparr>initialized := False, running := False\<rparr>\<rparr>"
  let ?web = "(if reports_web_status (launcher ?w1) then
              then_do (ext_do x Notify_task_stop ?w1)
                (\<lambda>w. then_do (ext_do x IOLoop_stop w) (ext_do x Thread_join))
            else Returns ?w1)"
  obtain w2 where w2: "?web = Returns w2"
    using r by (cases ?web) (simp_all add: on_stop_def Let_def then_do_def)
  have f2: "launcher w2 = launcher ?w1 \<and> heap w2 = heap ?w1 \<and> pools w2 = pools ?w1"
  proof (cases "reports_web_status (launcher ?w1)")
    case False
    then show ?thesis using w2 by simp
  next
    case True
    then obtain a b where "ext_do x Notify_task_stop ?w1 = Returns a"
      "ext_do x IOLoop_stop a = Returns b" "ext_do x Thread_join b = Returns w2"
      using w2 by (auto simp: then_do_def split: outcome.splits)
    then show ?thesis using ext_do_frame by metis
  qed
  let ?gr = "(if plotters_are_enabled wkf then ext_do x Graphics_teardown w2 else Returns w2)"
  have wf2: "workflow (launcher w2) = Some wkf" using f2 assms(2) by simp
  obtain w3 where w3: "?gr = Returns w3"
    and sd: "ThreadPool_shutdown x (run_callback x (Launcher_stop x n)) (thread_pool wkf)
                True False w3 = Returns w'"
    using r w2 wf2 by (cases ?gr) (simp_all add: on_stop_def Let_def then_do_def)
  have f3: "launcher w3 = launcher w2 \<and> heap w3 = heap w2 \<and> pools w3 = pools w2"
    using w3 ext_do_frame by (cases "plotters_are_enabled wkf") auto
  have "lock_held (launcher w3)" "thread_pool wkf \<in> set (pools w3)"
    "\<not> shutting_down (heap w3 (thread_pool wkf))"
    "Launcher_stop_cb \<in> set (on_shutdowns (heap w3 (thread_pool wkf)))"
    using f2 f3 assms by simp_all
  from shutdown_under_lock[OF this] sd show False by blast
qed

lemma stop_before_run_never_returns:
  assumes "initialized (launcher w)" and "\<not> running (launcher w)"
    and "workflow (launcher w) = Some wkf"
    and "thread_pool wkf \<in> set (pools w)" and "\<not> shutting_down (heap w (thread_pool wkf))"
    and "Launcher_stop_cb \<in> set (on_shutdowns (heap w (thread_pool wkf)))"
  shows "Launcher_stop x n w \<noteq> Returns w'"
proof (cases n)
  case 0
  then show ?thesis by simp
next
  case (Suc m)
  show ?thesis
  proof (cases "lock_held (launcher w)")
    case True
    then show ?thesis using stop_under_lock by blast
  next
    case False
    let ?w1 = "w\<lparr>launcher := (launcher w)\<lparr>lock_held := True\<rparr>\<rparr>"
    obtain md where md: "mode (launcher ?w1) = Inr md" using mode_total by blast
    have "on_stop x (Launcher_stop x m) ?w1 \<noteq> Returns w''" for w''
      using on_stop_under_lock[of ?w1 wkf x m w''] assms by simp
    then have "stop_body x (Launcher_stop x m) ?w1 \<noteq> Returns w''" for w''
      using assms(1,2) md by (simp add: stop_body_def)
    then show ?thesis
      using False Suc by (simp add: threadsafe_def split: outcome.splits)
  qed
qed

lemma add_ref_binds:
  assumes "add_ref x env ws wkf w = Returns w'"
  shows "initialized (launcher w') \<and> running (launcher w') = running (launcher w)
     \<and> (\<exists>wkf'. workflow (launcher w') = Some wkf' \<and> thread_pool wkf' = thread_pool wkf)
     \<and> pools w' = pools w
     \<and> shutting_down (heap w' (thread_pool wkf)) = shutting_down (heap w (thread_pool wkf))
     \<and> Launcher_stop_cb \<in> set (on_shutdowns (heap w' (thread_pool wkf)))"
  using assms
  by (auto simp: add_ref_def threadsafe_def add_ref_body_def Let_def then_do_def ext_do_def
        launch_status_def launch_nodes_in_def register_on_shutdown_def update_pool_def
        log_event_def
      split: outcome.splits option.splits if_splits prod.splits)

lemma exit_after_reinstall:
  assumes "sys_exit w = ThreadPool_exit" and "sysexit_initial w = Some ThreadPool_exit"
    and "pools w = []"
  shows "call_sys_exit x fuel depth w = Out_of_fuel"
  using assms
proof (induction depth arbitrary: w)
  case 0
  show ?case by simp
next
  case (Suc depth)
  have "call_sys_exit x fuel depth (w\<lparr>sys_exit := ThreadPool_exit\<rparr>) = Out_of_fuel"
    using Suc.prems by (intro Suc.IH) simp_all
  then show ?case
    using Suc.prems by (simp add: shutdown_pools_def then_do_def)
qed

section \<open>Helper lemmas: dictionaries and the benchmarking loops\<close>

















lemma map_of_dict_update:
  "distinct (map fst other) \<Longrightarrow>
   map_of (dict_update d other) k = (case map_of other k of None \<Rightarrow> map_of d k | Some v \<Rightarrow> Some v)"
proof (induction other arbitrary: d)
  case Nil
  then show ?case by (simp add: dict_update_def)
next
  case (Cons p other)
  obtain a b where p: "p = (a, b)" by (cases p)
  have e: "dict_update d (p # other) = dict_update (AList.update a b d) other"
    by (simp add: dict_update_def p)
  have n: "map_of other a = None" using Cons.prems p by (simp add: map_of_eq_None_iff)
  show ?case
    unfolding e using Cons.IH[of "AList.update a b d"] Cons.prems n
    by (auto simp: p update_conv' split: option.splits)
qed







section \<open>Role derivation\<close>

text \<open>
  C1. For every launcher that the constructor builds, with the addresses trimmed of
  surrounding whitespace: \<open>is_master\<close> holds iff the listen address is non-empty,
  \<open>is_slave\<close> iff the master address is non-empty, \<open>is_standalone\<close> iff both are
  empty; \<open>mode\<close> is "master" when the listen address is set and the master address
  empty, "slave" when the master address is set and the listen address empty, and
  "standalone" when both are empty.
\<close>

theorem role_derivation:
  assumes "Launcher_init epollfd a = Inr L"
  shows "is_master L = (strip (listen_address a) \<noteq> [])
    \<and> is_slave L = (strip (master_address a) \<noteq> [])
    \<and> is_standalone L = (strip (listen_address a) = [] \<and> strip (master_address a) = [])
    \<and> (strip (listen_address a) \<noteq> [] \<and> strip (master_address a) = []
           \<longrightarrow> mode L = Inr ''master'')
    \<and> (strip (master_address a) \<noteq> [] \<and> strip (listen_address a) = []
           \<longrightarrow> mode L = Inr ''slave'')
    \<and> (strip (listen_address a) = [] \<and> strip (master_address a) = []
           \<longrightarrow> mode L = Inr ''standalone'')"
  using assms
  by (auto simp: Launcher_init_def Let_def is_master_def is_slave_def is_standalone_def
        mode_def split: if_splits)

theorem role_derivation_witness:
  "Launcher_init None \<lparr>master_address = '' '', listen_address = '' 0.0.0.0:5000 '',
       matplotlib_backend = [], background = False, stealth = False,
       nodes = [], log_file = []\<rparr>
     = Inr \<lparr>largs = \<lparr>master_address = [], listen_address = ''0.0.0.0:5000'',
              matplotlib_backend = [], background = False, stealth = False,
              nodes = [], log_file = []\<rparr>,
            slaves_field = [], lock_held = False, webagg_port = 0, agent = None,
        workflow = None,
            initialized = False, running = False\<rparr>
   \<and> mode \<lparr>largs = \<lparr>master_address = [], listen_address = ''0.0.0.0:5000'',
              matplotlib_backend = [], background = False, stealth = False,
              nodes = [], log_file = []\<rparr>,
            slaves_field = [], lock_held = False, webagg_port = 0, agent = None,
        workflow = None,
            initialized = False, running = False\<rparr> = Inr ''master''
   \<and> Launcher_init None \<lparr>master_address = ''10.0.0.1:5000'', listen_address = [],
       matplotlib_backend = [], background = False, stealth = False,
       nodes = [], log_file = []\<rparr>
     = Inr \<lparr>largs = \<lparr>master_address = ''10.0.0.1:5000'', listen_address = [],
              matplotlib_backend = [], background = False, stealth = False,
              nodes = [], log_file = []\<rparr>,
            slaves_field = [], lock_held = False, webagg_port = 0, agent = None,
        workflow = None,
            initialized = False, running = False\<rparr>
   \<and> mode \<lparr>largs = \<lparr>master_address = ''10.0.0.1:5000'', listen_address = [],
              matplotlib_backend = [], background = False, stealth = False,
              nodes = [], log_file = []\<rparr>,
            slaves_field = [], lock_held = False, webagg_port = 0, agent = None,
        workflow = None,
            initialized = False, running = False\<rparr> = Inr ''slave''
   \<and> Launcher_init None \<lparr>master_address = [], listen_address = '' '',
       matplotlib_backend = [], background = False, stealth = False,
       nodes = [], log_file = []\<rparr>
     = Inr \<lparr>largs = \<lparr>master_address = [], listen_address = [],
              matplotlib_backend = [], background = False, stealth = False,
              nodes = [], log_file = []\<rparr>,
            slaves_field = [], lock_held = False, webagg_port = 0, agent = None,
        workflow = None,
            initialized = False, running = False\<rparr>
   \<and> mode \<lparr>largs = \<lparr>master_address = [], listen_address = [],
              matplotlib_backend = [], background = False, stealth = False,
              nodes = [], log_file = []\<rparr>,
            slaves_field = [], lock_held = False, webagg_port = 0, agent = None,
        workflow = None,
            initialized = False, running = False\<rparr> = Inr ''standalone''"
proof -
  have i1: "Launcher_init None \<lparr>master_address = '' '', listen_address = '' 0.0.0.0:5000 '',
       matplotlib_backend = [], background = False, stealth = False,
       nodes = [], log_file = []\<rparr>
     = Inr \<lparr>largs = \<lparr>master_address = [], listen_address = ''0.0.0.0:5000'',
              matplotlib_backend = [], background = False, stealth = False,
              nodes = [], log_file = []\<rparr>,
            slaves_field = [], lock_held = False, webagg_port = 0, agent = None,
        workflow = None,
            initialized = False, running = False\<rparr>"
    by (simp add: Launcher_init_def strip_def is_space_def)
  have i2: "Launcher_init None \<lparr>master_address = ''10.0.0.1:5000'', listen_address = [],
       matplotlib_backend = [], background = False, stealth = False,
       nodes = [], log_file = []\<rparr>
     = Inr \<lparr>largs = \<lparr>master_address = ''10.0.0.1:5000'', listen_address = [],
              matplotlib_backend = [], background = False, stealth = False,
              nodes = [], log_file = []\<rparr>,
            slaves_field = [], lock_held = False, webagg_port = 0, agent = None,
        workflow = None,
            initialized = False, running = False\<rparr>"
    by (simp add: Launcher_init_def strip_def is_space_def)
  have i3: "Launcher_init None \<lparr>master_address = [], listen_address = '' '',
       matplotlib_backend = [], background = False, stealth = False,
       nodes = [], log_file = []\<rparr>
     = Inr \<lparr>largs = \<lparr>master_address = [], listen_address = [],
              matplotlib_backend = [], background = False, stealth = False,
              nodes = [], log_file = []\<rparr>,
            slaves_field = [], lock_held = False, webagg_port = 0, agent = None,
        workflow = None,
            initialized = False, running = False\<rparr>"
    by (simp add: Launcher_init_def strip_def is_space_def)
  show ?thesis
    using i1 i2 i3 role_derivation[OF i1] role_derivation[OF i2] role_derivation[OF i3]
    by (simp add: strip_def is_space_def)
qed

section \<open>Expansion of the remote-node entries\<close>




section \<open>The node list outside master mode\<close>

text \<open>
  C10. For every launcher whose \<open>is_master\<close> is false, \<open>slaves\<close> is the empty list and
  \<^verbatim>\<open>_launch_nodes\<close> launches nothing, whatever the configured node string is.
\<close>

theorem non_master_ignores_nodes:
  assumes "\<not> is_master L"
  shows "slaves L = [] \<and> launch_nodes env L = ([], None)"
  using assms by (simp add: slaves_def launch_nodes_def)

theorem non_master_ignores_nodes_witness:
  "\<not> is_master
     \<lparr>largs = \<lparr>master_address = ''10.0.0.1:5000'', listen_address = [],
            matplotlib_backend = [], background = False, stealth = False,
            nodes = ''host/0:0'', log_file = []\<rparr>,
          slaves_field = [''host/0:0''], lock_held = False, webagg_port = 0, agent = None,
        workflow = None,
          initialized = False, running = False\<rparr>
   \<and> slaves
     \<lparr>largs = \<lparr>master_address = ''10.0.0.1:5000'', listen_address = [],
            matplotlib_backend = [], background = False, stealth = False,
            nodes = ''host/0:0'', log_file = []\<rparr>,
          slaves_field = [''host/0:0''], lock_held = False, webagg_port = 0, agent = None,
        workflow = None,
          initialized = False, running = False\<rparr> = []
   \<and> launch_nodes \<lparr>prog_path = ''/v/run.py'', argv_tail = [''-n'', ''host/0:0''],
                  hostname = ''box''\<rparr>
     \<lparr>largs = \<lparr>master_address = ''10.0.0.1:5000'', listen_address = [],
            matplotlib_backend = [], background = False, stealth = False,
            nodes = ''host/0:0'', log_file = []\<rparr>,
          slaves_field = [''host/0:0''], lock_held = False, webagg_port = 0, agent = None,
        workflow = None,
          initialized = False, running = False\<rparr> = ([], None)"
proof -
  let ?L = "\<lparr>largs = \<lparr>master_address = ''10.0.0.1:5000'', listen_address = [],
            matplotlib_backend = [], background = False, stealth = False,
            nodes = ''host/0:0'', log_file = []\<rparr>,
          slaves_field = [''host/0:0''], lock_held = False, webagg_port = 0, agent = None,
        workflow = None,
          initialized = False, running = False\<rparr>"
  have n: "\<not> is_master ?L" by (simp add: is_master_def)
  from n non_master_ignores_nodes[OF n] show ?thesis by simp
qed

section \<open>Shutdown callbacks of a pool\<close>



section \<open>Installation of the process-wide hooks\<close>

text \<open>
  C5. The claim is that over every sequence of pool constructions and shutdowns the two
  hooks are installed once, by the first pool. The constructor installs them whenever
  the registry is empty, and a shutdown empties it again: in the sequence construct,
  shut down, construct both hooks are installed twice, and the second installation
  saves the wrapper itself as the initial behaviour, so that \<open>exit_after_reinstall\<close>
  applies: the wrapper then only reaches itself.
\<close>

theorem hooks_installed_twice:
  "(case run_ops quiet [Construct 3, Shutdown 0 True False, Construct 3]
           (initial_world stealth_standalone) of
      Returns w \<Rightarrow>
        count_list (events w) Exit_hook_installed = 2
        \<and> count_list (events w) Sigint_hook_installed = 2
        \<and> sysexit_initial w = Some ThreadPool_exit
        \<and> sigint_initial w = Some ThreadPool_sigint_handler
        \<and> sys_exit w = ThreadPool_exit
    | _ \<Rightarrow> False)"
  by (simp add: pool_shutdown_def ThreadPool_shutdown_def ThreadPool_init_def Let_def
        initial_world_def update_pool_def log_event_def then_do_def run_shutdowners.simps
        join_threads_def join_events_def upt_rec numeral_3_eq_3)

section \<open>Stopping a launcher that was bound and never run\<close>

text \<open>
  C6. The claim is that \<^verbatim>\<open>stop()\<close> on a launcher that was bound by
  \<^verbatim>\<open>add_ref\<close> and never run returns without an error, twice in a row. For every
  launcher bound to a workflow whose pool is registered and not shutting down, the
  first \<^verbatim>\<open>stop()\<close> does not return, whatever the outside calls do:
  \<^verbatim>\<open>stop\<close> holds the launcher's lock while \<^verbatim>\<open>_on_stop\<close> shuts the pool down,
  the pool calls the callback that \<^verbatim>\<open>add_ref\<close> registered, which is \<^verbatim>\<open>stop\<close>
  again, and that call waits for the lock for ever.
\<close>

theorem stop_after_bind_never_returns:
  assumes "add_ref x env ws wkf w = Returns w1"
    and "\<not> running (launcher w)"
    and "thread_pool wkf \<in> set (pools w)"
    and "\<not> shutting_down (heap w (thread_pool wkf))"
  shows "Launcher_stop x' n w1 \<noteq> Returns w2"
proof -
  from add_ref_binds[OF assms(1)] obtain wkf' where
    "initialized (launcher w1)" "\<not> running (launcher w1)"
    "workflow (launcher w1) = Some wkf'" "thread_pool wkf' = thread_pool wkf"
    "pools w1 = pools w"
    "\<not> shutting_down (heap w1 (thread_pool wkf))"
    "Launcher_stop_cb \<in> set (on_shutdowns (heap w1 (thread_pool wkf)))"
    using assms(2,4) by auto
  then show ?thesis
    using stop_before_run_never_returns[of w1 wkf' x' n w2] assms(3) by simp
qed

theorem stop_after_bind_never_returns_witness:
  "add_ref quiet example_env (''status-host'', ''/v/web_status.py'')
       \<lparr>thread_pool = 0, plotters_are_enabled = True\<rparr>
       (snd (ThreadPool_init 3 (initial_world stealth_standalone))) = Returns bound_world
   \<and> \<not> running (launcher (snd (ThreadPool_init 3 (initial_world stealth_standalone))))
   \<and> 0 \<in> set (pools (snd (ThreadPool_init 3 (initial_world stealth_standalone))))
   \<and> \<not> shutting_down (heap (snd (ThreadPool_init 3 (initial_world stealth_standalone))) 0)
   \<and> initialized (launcher bound_world) \<and> \<not> running (launcher bound_world)
   \<and> Launcher_stop quiet 2 bound_world = Deadlock
   \<and> Launcher_stop quiet 2 bound_world \<noteq> Returns bound_world"
proof -
  let ?w0 = "snd (ThreadPool_init 3 (initial_world stealth_standalone))"
  let ?wkf = "\<lparr>thread_pool = 0, plotters_are_enabled = True\<rparr>"
  have "\<exists>w. add_ref quiet example_env (''status-host'', ''/v/web_status.py'') ?wkf ?w0
               = Returns w"
    by (simp add: add_ref_def threadsafe_def add_ref_body_def Let_def
        stealth_standalone_def initial_world_def ThreadPool_init_def
        register_on_shutdown_def update_pool_def log_event_def
        is_slave_def is_master_def reports_web_status_def then_do_def)
  then have a: "add_ref quiet example_env (''status-host'', ''/v/web_status.py'') ?wkf ?w0
               = Returns bound_world"
    by (auto simp: bound_world_def)
  have b: "\<not> running (launcher ?w0)" "thread_pool ?wkf \<in> set (pools ?w0)"
    "\<not> shutting_down (heap ?w0 (thread_pool ?wkf))"
    by (simp_all add: ThreadPool_init_def initial_world_def stealth_standalone_def Let_def
          log_event_def)
  have c: "Launcher_stop quiet 2 bound_world \<noteq> Returns bound_world"
    using stop_after_bind_never_returns[OF a b] .
  have d: "Launcher_stop quiet 2 bound_world = Deadlock"
    by (simp add: bound_world_def add_ref_def threadsafe_def add_ref_body_def Let_def
        ThreadPool_init_def initial_world_def stealth_standalone_def register_on_shutdown_def
        update_pool_def log_event_def is_slave_def is_master_def reports_web_status_def
        then_do_def numeral_2_eq_2 stop_body_def mode_def is_standalone_def on_stop_def
        ThreadPool_shutdown_def run_shutdowners.simps run_callback_def quiet_def ext_do_def)
  have e: "initialized (launcher bound_world)" "\<not> running (launcher bound_world)"
    using add_ref_binds[OF a] b(1) by simp_all
  from a b c d e show ?thesis by simp
qed

section \<open>The update of the contract-test workflow\<close>

text \<open>
  C9. For every update payload that \<^verbatim>\<open>pickle.loads\<close> deserialises,
  \<^verbatim>\<open>apply_update\<close> returns \<^verbatim>\<open>True\<close> if and only if the deserialised object is a
  dictionary, and it sets \<^verbatim>\<open>update_applied\<close> exactly in that case: for any other
  object it returns \<^verbatim>\<open>False\<close> and leaves the attribute as it was.
\<close>

theorem apply_update_accepts_records:
  assumes "loads update = Inr obj"
  shows "fst (apply_update loads update st) = Inr (isinstance_dict obj)
     \<and> snd (apply_update loads update st)
         = st\<lparr>update_applied := update_applied st \<or> isinstance_dict obj\<rparr>"
  using assms by (simp add: apply_update_def)

theorem apply_update_accepts_records_witness:
  "example_loads ''job'' = Inr (PyDict [(PyStr ''objective'', PyStr ''win'')])
   \<and> apply_update example_loads ''job'' TestWorkflow_class
     = (Inr True, TestWorkflow_class\<lparr>update_applied := True\<rparr>)
   \<and> example_loads ''numbers'' = Inr (PyList [PyInt 1, PyInt 2])
   \<and> apply_update example_loads ''numbers'' TestWorkflow_class
     = (Inr False, TestWorkflow_class)"
proof -
  have 1: "example_loads ''job'' = Inr (PyDict [(PyStr ''objective'', PyStr ''win'')])"
    by (simp add: example_loads_def)
  have 2: "example_loads ''numbers'' = Inr (PyList [PyInt 1, PyInt 2])"
    by (simp add: example_loads_def)
  show ?thesis
    using 1 2
      apply_update_accepts_records[of example_loads "''job''"
        "PyDict [(PyStr ''objective'', PyStr ''win'')]" TestWorkflow_class]
      apply_update_accepts_records[of example_loads "''numbers''"
        "PyList [PyInt 1, PyInt 2]" TestWorkflow_class]
    by (simp add: prod_eq_iff TestWorkflow_class_def)
qed

section \<open>The performance cache at construction\<close>

text \<open>
  C7. When reading the cache file raises \<^verbatim>\<open>IOError\<close>,
  \<^verbatim>\<open>_fill_device_info_performance_values\<close> goes on exactly as with an empty cache,
  and returns the device's defaults when unknown devices are not to be tested. When
  re-testing known devices is not forced and the cache holds the device's description,
  the method returns without a benchmarking pass and without writing the cache
  (whatever the measurements and the write would do), and for every type that the cached
  record holds, the rating, the measured time, the minimum time and the block size of
  the device's record are the cached ones; a type that the cached record lacks keeps
  the device's own value, and the other fields are unchanged.
\<close>

theorem known_device_is_adopted:
  "fill_device_info_performance_values cfg dtypes (Read_raises IOError) wr meas di
     = fill_device_info_performance_values cfg dtypes (Loaded []) wr meas di
   \<and> (\<not> test_unknown_device cfg \<longrightarrow>
        fill_device_info_performance_values cfg dtypes (Read_raises IOError) wr meas di
          = Inr (di, None))
   \<and> (\<not> test_known_device cfg \<and> map_of c (desc di) = Some ci \<and> wf_info ci \<longrightarrow>
        (\<exists>di'. fill_device_info_performance_values cfg dtypes (Loaded c) wr meas di
                 = Inr (di', None)
           \<and> (\<forall>ty. map_of (rating di') ty
                 = (case map_of (rating ci) ty of None \<Rightarrow> map_of (rating di) ty | Some v \<Rightarrow> Some v))
           \<and> (\<forall>ty. map_of (dt di') ty
                 = (case map_of (dt ci) ty of None \<Rightarrow> map_of (dt di) ty | Some v \<Rightarrow> Some v))
           \<and> (\<forall>ty. map_of (min_dt di') ty
                 = (case map_of (min_dt ci) ty of None \<Rightarrow> map_of (min_dt di) ty | Some v \<Rightarrow> Some v))
           \<and> (\<forall>ty. map_of (BLOCK_SIZE di') ty
                 = (case map_of (BLOCK_SIZE ci) ty of None \<Rightarrow> map_of (BLOCK_SIZE di) ty
                    | Some v \<Rightarrow> Some v))
           \<and> desc di' = desc di \<and> memsize di' = memsize di \<and> memalign di' = memalign di
           \<and> version di' = version di))"
proof (intro conjI impI)
  show "fill_device_info_performance_values cfg dtypes (Read_raises IOError) wr meas di
     = fill_device_info_performance_values cfg dtypes (Loaded []) wr meas di"
    by (simp add: fill_device_info_performance_values_def)
next
  assume "\<not> test_unknown_device cfg"
  then show "fill_device_info_performance_values cfg dtypes (Read_raises IOError) wr meas di
          = Inr (di, None)"
    by (simp add: fill_device_info_performance_values_def bind_err_def)
next
  assume a: "\<not> test_known_device cfg \<and> map_of c (desc di) = Some ci \<and> wf_info ci"
  let ?di = "di\<lparr>rating := dict_update (rating di) (rating ci),
                BLOCK_SIZE := dict_update (BLOCK_SIZE di) (BLOCK_SIZE ci),
                dt := dict_update (dt di) (dt ci),
                min_dt := dict_update (min_dt di) (min_dt ci)\<rparr>"
  have "fill_device_info_performance_values cfg dtypes (Loaded c) wr meas di = Inr (?di, None)"
    using a by (simp add: fill_device_info_performance_values_def bind_err_def getitem_def)
  moreover have "\<forall>ty. map_of (rating ?di) ty
                 = (case map_of (rating ci) ty of None \<Rightarrow> map_of (rating di) ty | Some v \<Rightarrow> Some v)"
    using a by (simp add: wf_info_def map_of_dict_update)
  moreover have "\<forall>ty. map_of (dt ?di) ty
                 = (case map_of (dt ci) ty of None \<Rightarrow> map_of (dt di) ty | Some v \<Rightarrow> Some v)"
    using a by (simp add: wf_info_def map_of_dict_update)
  moreover have "\<forall>ty. map_of (min_dt ?di) ty
                 = (case map_of (min_dt ci) ty of None \<Rightarrow> map_of (min_dt di) ty | Some v \<Rightarrow> Some v)"
    using a by (simp add: wf_info_def map_of_dict_update)
  moreover have "\<forall>ty. map_of (BLOCK_SIZE ?di) ty
                 = (case map_of (BLOCK_SIZE ci) ty of None \<Rightarrow> map_of (BLOCK_SIZE di) ty
                    | Some v \<Rightarrow> Some v)"
    using a by (simp add: wf_info_def map_of_dict_update)
  ultimately show "\<exists>di'. fill_device_info_performance_values cfg dtypes (Loaded c) wr meas di
                 = Inr (di', None)
           \<and> (\<forall>ty. map_of (rating di') ty
                 = (case map_of (rating ci) ty of None \<Rightarrow> map_of (rating di) ty | Some v \<Rightarrow> Some v))
           \<and> (\<forall>ty. map_of (dt di') ty
                 = (case map_of (dt ci) ty of None \<Rightarrow> map_of (dt di) ty | Some v \<Rightarrow> Some v))
           \<and> (\<forall>ty. map_of (min_dt di') ty
                 = (case map_of (min_dt ci) ty of None \<Rightarrow> map_of (min_dt di) ty | Some v \<Rightarrow> Some v))
           \<and> (\<forall>ty. map_of (BLOCK_SIZE di') ty
                 = (case map_of (BLOCK_SIZE ci) ty of None \<Rightarrow> map_of (BLOCK_SIZE di) ty
                    | Some v \<Rightarrow> Some v))
           \<and> desc di' = desc di \<and> memsize di' = memsize di \<and> memalign di' = memalign di
           \<and> version di' = version di"
    by (intro exI[of _ ?di]) simp
qed

theorem known_device_is_adopted_witness:
  "\<not> test_unknown_device adopt_only \<and> \<not> test_known_device adopt_only
   \<and> map_of [(''W/M/2'', rival)] (desc known) = Some rival
   \<and> wf_info rival
   \<and> fill_device_info_performance_values adopt_only [''double''] (Read_raises IOError) None
        cpu_loses fresh = Inr (fresh, None)
   \<and> fill_device_info_performance_values adopt_only [''double''] (Loaded [(''W/M/2'', rival)]) None
        cpu_loses known = Inr (rival, None)
   \<and> (\<exists>di'. fill_device_info_performance_values adopt_only [''double'']
               (Loaded [(''W/M/2'', rival)]) None cpu_loses known = Inr (di', None)
          \<and> map_of (rating di') ''double'' = Some 1 \<and> map_of (dt di') ''double'' = Some 3
          \<and> map_of (min_dt di') ''double'' = Some 3
          \<and> map_of (BLOCK_SIZE di') ''double'' = Some 24)"
proof -
  have h: "\<not> test_unknown_device adopt_only" "\<not> test_known_device adopt_only"
    "map_of [(''W/M/2'', rival)] (desc known) = Some rival"
    "wf_info rival"
    by (simp_all add: adopt_only_def known_def DeviceInfo_init_def rival_def wf_info_def)
  have e: "fill_device_info_performance_values adopt_only [''double''] (Loaded [(''W/M/2'', rival)]) None
        cpu_loses known = Inr (rival, None)"
    by code_simp
  have r: "fill_device_info_performance_values adopt_only [''double''] (Read_raises IOError) None
        cpu_loses fresh = Inr (fresh, None)"
    using h(1) known_device_is_adopted[of adopt_only "[''double'']" None cpu_loses fresh]
    by blast
  have l: "map_of (rating rival) ''double'' = Some 1" "map_of (dt rival) ''double'' = Some 3"
    "map_of (min_dt rival) ''double'' = Some 3" "map_of (BLOCK_SIZE rival) ''double'' = Some 24"
    by (simp_all add: rival_def)
  from h known_device_is_adopted[of adopt_only "[''double'']" None cpu_loses known
        "[(''W/M/2'', rival)]" rival]
  obtain di' where d: "fill_device_info_performance_values adopt_only [''double'']
               (Loaded [(''W/M/2'', rival)]) None cpu_loses known = Inr (di', None)"
     "\<forall>ty. map_of (rating di') ty
         = (case map_of (rating rival) ty of None \<Rightarrow> map_of (rating known) ty | Some v \<Rightarrow> Some v)"
     "\<forall>ty. map_of (dt di') ty
         = (case map_of (dt rival) ty of None \<Rightarrow> map_of (dt known) ty | Some v \<Rightarrow> Some v)"
     "\<forall>ty. map_of (min_dt di') ty
         = (case map_of (min_dt rival) ty of None \<Rightarrow> map_of (min_dt known) ty | Some v \<Rightarrow> Some v)"
     "\<forall>ty. map_of (BLOCK_SIZE di') ty
         = (case map_of (BLOCK_SIZE rival) ty of None \<Rightarrow> map_of (BLOCK_SIZE known) ty
            | Some v \<Rightarrow> Some v)"
    by blast
  have "map_of (rating di') ''double'' = Some 1" "map_of (dt di') ''double'' = Some 3"
    "map_of (min_dt di') ''double'' = Some 3" "map_of (BLOCK_SIZE di') ''double'' = Some 24"
    using d(2-5) l by simp_all
  with d(1) have x: "\<exists>di'. fill_device_info_performance_values adopt_only [''double'']
               (Loaded [(''W/M/2'', rival)]) None cpu_loses known = Inr (di', None)
          \<and> map_of (rating di') ''double'' = Some 1 \<and> map_of (dt di') ''double'' = Some 3
          \<and> map_of (min_dt di') ''double'' = Some 3
          \<and> map_of (BLOCK_SIZE di') ''double'' = Some 24"
    by blast
  show ?thesis using h e r x by blast
qed

section \<open>Ratings after a benchmarking pass\<close>




end
